theory Spec2Isabelle
  imports Complex_Main "HOL-Library.Sublist" "HOL-Library.Word"
begin

section \<open>JavaScript strings and the primitives the chat component uses\<close>

text \<open>
  A JavaScript string is a sequence of 16-bit code units. \<open>js\<close> writes a literal of the
  sources (all of them ASCII) as such a sequence.
\<close>

type_synonym codeUnit = "16 word"

type_synonym jsString = "codeUnit list"

definition js :: "string \<Rightarrow> jsString" where
  "js s = map of_char s"

text \<open>
  \<open>String.prototype.trim\<close> removes white space and line terminators from both ends.
  ECMAScript's WhiteSpace is TAB, VT, FF, SP, NBSP, ZWNBSP (U+FEFF) and the space
  separators (U+1680, U+2000 to U+200A, U+202F, U+205F, U+3000); its LineTerminator is
  LF, CR, U+2028 and U+2029. All of them are single code units.
\<close>

definition isWhiteSpace :: "codeUnit \<Rightarrow> bool" where
  "isWhiteSpace c =
     (c \<in> {0x0009, 0x000B, 0x000C, 0x0020, 0x00A0, 0xFEFF,
            0x1680, 0x202F, 0x205F, 0x3000,
            0x000A, 0x000D, 0x2028, 0x2029}
      \<or> (0x2000 \<le> c \<and> c \<le> 0x200A))"

definition trim :: "jsString \<Rightarrow> jsString" where
  "trim s = rev (dropWhile isWhiteSpace (rev (dropWhile isWhiteSpace s)))"

text \<open>\<open>s.includes(kw)\<close> on strings: \<open>kw\<close> occurs in \<open>s\<close> as a contiguous run of code units.\<close>

fun str_includes :: "jsString \<Rightarrow> jsString \<Rightarrow> bool" where
  "str_includes [] kw = (kw = [])"
| "str_includes (c # cs) kw = (take (length kw) (c # cs) = kw \<or> str_includes cs kw)"

text \<open>
  \<open>[...new Set(xs)]\<close>: the elements of \<open>xs\<close> in order of first insertion, each once.
\<close>

definition Set_add :: "'a list \<Rightarrow> 'a \<Rightarrow> 'a list" where
  "Set_add acc x = (if x \<in> set acc then acc else acc @ [x])"

definition Set_spread :: "'a list \<Rightarrow> 'a list" where
  "Set_spread xs = foldl Set_add [] xs"

subsection \<open>String.prototype.toLowerCase\<close>

text \<open>
  \<open>toLowerCase\<close> is a built-in of the JavaScript engine; what it does beyond ASCII is
  fixed by the Unicode tables of the engine, which are not part of the sources. The
  component's functions therefore take it as a parameter, called \<open>toLowerCase\<close> as in the
  code. Two facts about it are used, each only where a theorem names it as a hypothesis:
  on a text of ASCII code units it replaces \<open>A\<close>..\<open>Z\<close> by \<open>a\<close>..\<open>z\<close> and keeps every
  other code unit (\<open>lowers_ASCII\<close>), and lower-casing a lower-cased text changes nothing
  (\<open>idempotent_lower\<close>).
\<close>

definition isASCII :: "jsString \<Rightarrow> bool" where
  "isASCII s = list_all (\<lambda>c. c < 0x80) s"

definition asciiLower :: "codeUnit \<Rightarrow> codeUnit" where
  "asciiLower c = (if 0x41 \<le> c \<and> c \<le> 0x5A then c + 0x20 else c)"

definition lowers_ASCII :: "(jsString \<Rightarrow> jsString) \<Rightarrow> bool" where
  "lowers_ASCII toLowerCase = (\<forall>s. isASCII s \<longrightarrow> toLowerCase s = map asciiLower s)"


text \<open>
  A function with both properties, used to run the examples: it lower-cases the ASCII
  letters and keeps all other code units. On ASCII texts it is the engine's function.
\<close>

definition toLowerCase_ASCII :: "jsString \<Rightarrow> jsString" where
  "toLowerCase_ASCII s = map asciiLower s"




section \<open>The topic table and topic detection (app.jsx)\<close>

record topic =
  name :: jsString
  "keywords" :: "jsString list"

definition aiTopics :: "topic list" where
  "aiTopics =
    [\<lparr>name = js ''Machine Learning Basics'',
      keywords = [js ''machine learning'', js ''ml'', js ''training'', js ''model'']\<rparr>,
     \<lparr>name = js ''Neural Networks'',
      keywords = [js ''neural'', js ''network'', js ''deep learning'', js ''neurons'']\<rparr>,
     \<lparr>name = js ''Natural Language Processing'',
      keywords = [js ''nlp'', js ''language'', js ''text'', js ''chatbot'']\<rparr>,
     \<lparr>name = js ''Computer Vision'',
      keywords = [js ''vision'', js ''image'', js ''recognition'', js ''detection'']\<rparr>,
     \<lparr>name = js ''AI Ethics'',
      keywords = [js ''ethics'', js ''bias'', js ''fairness'', js ''responsible'']\<rparr>,
     \<lparr>name = js ''Generative AI'',
      keywords = [js ''generative'', js ''gpt'', js ''llm'', js ''generate'']\<rparr>]"

text \<open>
  The detection loop of \<open>generateResponse\<close>: \<open>detectedTopic\<close> starts as \<open>null\<close>; the
  table is scanned in order and the scan stops (\<open>break\<close>) at the first topic one of whose
  keywords occurs in the lower-cased message.
\<close>

fun detectTopic_loop :: "topic list \<Rightarrow> jsString \<Rightarrow> jsString option" where
  "detectTopic_loop [] lowerMsg = None"
| "detectTopic_loop (t # ts) lowerMsg =
     (if list_ex (\<lambda>kw. str_includes lowerMsg kw) (keywords t) then Some (name t)
      else detectTopic_loop ts lowerMsg)"

definition detectedTopic :: "(jsString \<Rightarrow> jsString) \<Rightarrow> jsString \<Rightarrow> jsString option" where
  "detectedTopic toLowerCase userMessage = detectTopic_loop aiTopics (toLowerCase userMessage)"

text \<open>The topics detected in a message, as a list: none, or the one \<open>detectedTopic\<close>.\<close>

definition topicsDetected :: "(jsString \<Rightarrow> jsString) \<Rightarrow> jsString \<Rightarrow> jsString list" where
  "topicsDetected toLowerCase userMessage =
     (case detectedTopic toLowerCase userMessage of None \<Rightarrow> [] | Some t \<Rightarrow> [t])"

section \<open>Component state\<close>

datatype role = User | Assistant

record message =
  role :: role
  content :: jsString
  topics :: "jsString list option"

text \<open>
  A message object; \<open>topics\<close> is the optional field of the TypeScript interface
  (\<open>None\<close> when the object literal does not set it or sets it to \<open>undefined\<close>).
\<close>

text \<open>The body of a successful \<open>POST /api/message\<close> response, as App.tsx reads it.\<close>

record serverData =
  message :: jsString
  student_level :: jsString
  progress :: int
  topics_detected :: "jsString list option"

record learnerProfile =
  name :: jsString
  level :: jsString
  progress :: int
  topics :: "jsString list"

record sessionData =
  questionsAsked :: nat
  topicsExplored :: "jsString list"
  sessionTime :: nat

record app_state =
  messages :: "message list"
  input :: jsString
  isLoading :: bool
  learnerProfile :: learnerProfile
  sessionData :: sessionData

definition greeting :: jsString where
  "greeting = js ''Hello! I'm your AI Learning Assistant. I'm here to help you learn about artificial intelligence and its latest features. What would you like to learn today?''"

definition initial_state :: app_state where
  "initial_state =
     \<lparr>messages = [\<lparr>role = Assistant, content = greeting, message.topics = None\<rparr>],
      input = [],
      isLoading = False,
      learnerProfile =
        \<lparr>name = js ''Student'', level = js ''Beginner'', progress = 0, topics = []\<rparr>,
      sessionData = \<lparr>questionsAsked = 0, topicsExplored = [], sessionTime = 0\<rparr>\<rparr>"

section \<open>app.jsx: the locally simulated tutor\<close>

subsection \<open>generateResponse\<close>

text \<open>
  The state updates of \<open>generateResponse\<close> (everything before its \<open>await\<close>).
  The guard reads \<open>sessionData\<close> through the closure of the render in which the handler was
  created (\<open>rendered\<close>); the two setters are functional updates applied to the state as it is
  when they run (\<open>s\<close>). A \<open>null\<close> or empty \<open>detectedTopic\<close> is falsy.
\<close>

definition generateResponse_updates ::
    "(jsString \<Rightarrow> jsString) \<Rightarrow> sessionData \<Rightarrow> jsString \<Rightarrow> app_state \<Rightarrow> app_state" where
  "generateResponse_updates toLowerCase rendered userMessage s =
     (case detectedTopic toLowerCase userMessage of
        None \<Rightarrow> s
      | Some t \<Rightarrow>
          if t \<noteq> [] \<and> t \<notin> set (topicsExplored rendered) then
            s\<lparr>sessionData := (sessionData s)
                 \<lparr>topicsExplored := topicsExplored (sessionData s) @ [t]\<rparr>,
              learnerProfile := (learnerProfile s)
                 \<lparr>progress := min 100 (progress (learnerProfile s) + 15),
                  topics := Set_spread (topics (learnerProfile s) @ [t])\<rparr>\<rparr>
          else s)"

definition reply_machine_learning :: jsString where
  "reply_machine_learning = js ''Machine Learning is a subset of AI where computers learn from data without being explicitly programmed. Think of it like teaching a child to recognize animals - you show them examples, and they learn patterns. There are three main types:\<newline>\<newline>1. **Supervised Learning**: Learning from labeled examples (like flashcards)\<newline>2. **Unsupervised Learning**: Finding patterns in unlabeled data\<newline>3. **Reinforcement Learning**: Learning through trial and error\<newline>\<newline>Would you like to explore any of these in more detail?''"

definition reply_neural :: jsString where
  "reply_neural = js ''Neural Networks are inspired by the human brain! They consist of layers of interconnected 'neurons' that process information. Imagine water flowing through a series of filters - each layer extracts different features.\<newline>\<newline>**Key Concepts:**\<newline>- Input Layer: Receives raw data\<newline>- Hidden Layers: Process and transform data\<newline>- Output Layer: Makes predictions\<newline>\<newline>Deep Learning uses many hidden layers, allowing it to learn complex patterns. This is what powers things like image recognition and language translation!''"

definition reply_nlp :: jsString where
  "reply_nlp = js ''Natural Language Processing (NLP) helps computers understand human language! It's what allows chatbots, translators, and voice assistants to work.\<newline>\<newline>**Cool Applications:**\<newline>- Chatbots (like me!)\<newline>- Language translation\<newline>- Sentiment analysis (understanding emotions in text)\<newline>- Text summarization\<newline>\<newline>Recent advances like GPT models have revolutionized NLP by understanding context much better than before!''"

definition reply_vision :: jsString where
  "reply_vision = js ''Computer Vision teaches computers to 'see' and understand images! It's used in:\<newline>\<newline>- Facial recognition\<newline>- Self-driving cars\<newline>- Medical image analysis\<newline>- Object detection\<newline>\<newline>Modern computer vision uses Convolutional Neural Networks (CNNs) that learn to recognize features like edges, shapes, and textures automatically!''"

definition reply_ethics :: jsString where
  "reply_ethics = js ''AI Ethics is crucial! As AI becomes more powerful, we must ensure it's fair and beneficial. Key concerns include:\<newline>\<newline>1. **Bias**: AI can inherit human biases from training data\<newline>2. **Privacy**: Protecting personal information\<newline>3. **Transparency**: Understanding how AI makes decisions\<newline>4. **Accessibility**: Ensuring AI benefits everyone, not just the privileged\<newline>\<newline>Remember: AI should empower people, not replace human judgment in critical decisions!''"

definition reply_generative :: jsString where
  "reply_generative = js ''Generative AI creates new content - text, images, music, and more! Large Language Models (LLMs) like GPT are trained on massive amounts of text to understand and generate human-like responses.\<newline>\<newline>**How it works:**\<newline>1. Training on billions of text examples\<newline>2. Learning patterns and relationships\<newline>3. Predicting what comes next\<newline>\<newline>**Applications:**\<newline>- Writing assistance\<newline>- Code generation\<newline>- Creative content\<newline>- Education (like this conversation!)\<newline>\<newline>These models are democratizing access to knowledge and creativity!''"

definition reply_start :: jsString where
  "reply_start = js ''Great! Let's start your AI journey. Here are beginner-friendly topics:\<newline>\<newline>1. **What is AI?** - Understanding the basics\<newline>2. **Machine Learning** - How computers learn\<newline>3. **Real-world Applications** - AI in daily life\<newline>4. **Getting Started with Coding** - Python basics for AI\<newline>\<newline>Which topic interests you most? Or ask me anything specific!''"

definition reply_default :: jsString where
  "reply_default = js ''That's a great question! AI is a vast and exciting field. I can help you learn about:\<newline>\<newline>- Machine Learning fundamentals\<newline>- Neural Networks and Deep Learning\<newline>- Natural Language Processing\<newline>- Computer Vision\<newline>- AI Ethics and Responsible AI\<newline>- Generative AI and LLMs\<newline>\<newline>What specific aspect would you like to explore? Feel free to ask anything!''"

text \<open>The value \<open>generateResponse\<close> resolves to: the first branch whose keyword occurs.\<close>

definition generateResponse_reply :: "(jsString \<Rightarrow> jsString) \<Rightarrow> jsString \<Rightarrow> jsString" where
  "generateResponse_reply toLowerCase userMessage =
     (let lowerMsg = toLowerCase userMessage in
      if str_includes lowerMsg (js ''machine learning'') \<or> str_includes lowerMsg (js ''ml'')
        then reply_machine_learning
      else if str_includes lowerMsg (js ''neural'') \<or> str_includes lowerMsg (js ''deep learning'')
        then reply_neural
      else if str_includes lowerMsg (js ''nlp'') \<or> str_includes lowerMsg (js ''language'')
        then reply_nlp
      else if str_includes lowerMsg (js ''vision'') \<or> str_includes lowerMsg (js ''image'')
        then reply_vision
      else if str_includes lowerMsg (js ''ethics'') \<or> str_includes lowerMsg (js ''bias'')
        then reply_ethics
      else if str_includes lowerMsg (js ''generative'') \<or> str_includes lowerMsg (js ''gpt'')
              \<or> str_includes lowerMsg (js ''llm'')
        then reply_generative
      else if str_includes lowerMsg (js ''start'') \<or> str_includes lowerMsg (js ''begin'')
              \<or> str_includes lowerMsg (js ''learn'')
        then reply_start
      else reply_default)"

subsection \<open>handleSend\<close>

text \<open>The early return of \<open>handleSend\<close>: \<open>!input.trim() || isLoading\<close>.\<close>

definition handleSend_returns_early :: "app_state \<Rightarrow> bool" where
  "handleSend_returns_early s = (trim (input s) = [] \<or> isLoading s)"

text \<open>
  \<open>handleSend\<close> up to the \<open>await\<close> inside \<open>generateResponse\<close>: the learner's message is
  appended, the input cleared, \<open>isLoading\<close> set, \<open>questionsAsked\<close> incremented, and the
  updates of \<open>generateResponse\<close> queued, in this order.
\<close>

definition handleSend_dispatch :: "(jsString \<Rightarrow> jsString) \<Rightarrow> app_state \<Rightarrow> app_state" where
  "handleSend_dispatch toLowerCase s =
     (if handleSend_returns_early s then s
      else
        let userMessage = trim (input s);
            s1 = s\<lparr>messages := messages s
                   @ [\<lparr>role = User, content = userMessage, message.topics = None\<rparr>]\<rparr>;
            s2 = s1\<lparr>input := []\<rparr>;
            s3 = s2\<lparr>isLoading := True\<rparr>;
            s4 = s3\<lparr>sessionData := (sessionData s3)
                      \<lparr>questionsAsked := questionsAsked (sessionData s3) + 1\<rparr>\<rparr>
        in generateResponse_updates toLowerCase (sessionData s) userMessage s4)"

text \<open>The continuation after the \<open>await\<close>: the reply is appended and \<open>isLoading\<close> reset.\<close>

definition handleSend_resume :: "jsString \<Rightarrow> app_state \<Rightarrow> app_state" where
  "handleSend_resume response s =
     (let s1 = s\<lparr>messages := messages s
                 @ [\<lparr>role = Assistant, content = response, message.topics = None\<rparr>]\<rparr>
      in s1\<lparr>isLoading := False\<rparr>)"

text \<open>
  One whole call of \<open>handleSend\<close>, from the click to the appended reply. While it
  awaits, the interval timer only writes \<open>sessionTime\<close> and typing only writes \<open>input\<close>;
  the continuation reads neither, and they are left out.
\<close>

definition handleSend :: "(jsString \<Rightarrow> jsString) \<Rightarrow> app_state \<Rightarrow> app_state" where
  "handleSend toLowerCase s =
     (if handleSend_returns_early s then s
      else handleSend_resume (generateResponse_reply toLowerCase (trim (input s)))
             (handleSend_dispatch toLowerCase s))"

text \<open>
  A turn: the learner types \<open>text\<close> into the input field (\<open>setInput\<close>) and sends it.
  \<open>run\<close> performs the turns of a list of texts one after the other.
\<close>

definition setInput :: "jsString \<Rightarrow> app_state \<Rightarrow> app_state" where
  "setInput text s = s\<lparr>input := text\<rparr>"

definition turn :: "(jsString \<Rightarrow> jsString) \<Rightarrow> jsString \<Rightarrow> app_state \<Rightarrow> app_state" where
  "turn toLowerCase text s = handleSend toLowerCase (setInput text s)"

fun run :: "(jsString \<Rightarrow> jsString) \<Rightarrow> app_state \<Rightarrow> jsString list \<Rightarrow> app_state" where
  "run toLowerCase s [] = s"
| "run toLowerCase s (text # texts) = run toLowerCase (turn toLowerCase text s) texts"

text \<open>The two entries a processed turn appends to \<open>messages\<close>.\<close>

definition turn_entries :: "(jsString \<Rightarrow> jsString) \<Rightarrow> jsString \<Rightarrow> message list" where
  "turn_entries toLowerCase t =
     [\<lparr>role = User, content = trim t, message.topics = None\<rparr>,
      \<lparr>role = Assistant, content = generateResponse_reply toLowerCase (trim t),
       message.topics = None\<rparr>]"

section \<open>App.tsx: the client of the tutoring backend\<close>

text \<open>
  The component keeps the same state as app.jsx (its \<open>studentId\<close> is fixed at mount and
  only sent with the request). The backend is outside the component: what \<open>await fetch\<close>
  and \<open>await response.json()\<close> deliver is an input of the model. \<open>Rejected\<close> is a
  rejected \<open>fetch\<close>; \<open>Response ok body\<close> is a response with its \<open>ok\<close> flag and the
  parsed body (\<open>None\<close> when \<open>response.json()\<close> rejects). The body is only read when
  \<open>response.ok\<close> holds. A body that parses is taken to be an object of the documented
  response shape; a body that parses to \<open>null\<close> or to a value that is not an object makes
  the queued updaters throw while React renders, and that outcome is not modelled.
\<close>

datatype fetch_outcome = Rejected | Response bool "serverData option"

definition fallback_reply :: jsString where
  "fallback_reply = js ''I'm having trouble connecting right now. Please try again in a moment.''"

definition handleServerResponse :: "serverData \<Rightarrow> app_state \<Rightarrow> app_state" where
  "handleServerResponse data s =
     (let s1 = s\<lparr>messages := messages s
                  @ [\<lparr>role = Assistant, content = message data,
                      message.topics = topics_detected data\<rparr>]\<rparr>;
          s2 = s1\<lparr>learnerProfile := (learnerProfile s1)
                  \<lparr>level := student_level data,
                   progress := serverData.progress data,
                   topics := Set_spread (topics (learnerProfile s1)
                      @ (case topics_detected data of None \<Rightarrow> [] | Some ts \<Rightarrow> ts))\<rparr>\<rparr>
      in case topics_detected data of
           None \<Rightarrow> s2
         | Some ts \<Rightarrow>
             if length ts > 0 then
               s2\<lparr>sessionData := (sessionData s2)
                    \<lparr>topicsExplored := Set_spread (topicsExplored (sessionData s2) @ ts)\<rparr>\<rparr>
             else s2)"

text \<open>The \<open>catch\<close> block: the static reply is appended as an assistant message.\<close>

definition App_handleSend_catch :: "app_state \<Rightarrow> app_state" where
  "App_handleSend_catch s =
     s\<lparr>messages := messages s
          @ [\<lparr>role = Assistant, content = fallback_reply, message.topics = None\<rparr>]\<rparr>"

text \<open>
  \<open>handleSend\<close> of App.tsx: the same early return and the same four updates as in app.jsx,
  then \<open>try\<close> (the request), \<open>catch\<close> (a rejected fetch, a response that is not ok,
  through \<open>throw new Error\<close>, or a body that does not parse) and \<open>finally\<close>.
\<close>

definition App_handleSend :: "fetch_outcome \<Rightarrow> app_state \<Rightarrow> app_state" where
  "App_handleSend outcome s =
     (if handleSend_returns_early s then s
      else
        let userMessage = trim (input s);
            s1 = s\<lparr>messages := messages s
                   @ [\<lparr>role = User, content = userMessage, message.topics = None\<rparr>]\<rparr>;
            s2 = s1\<lparr>input := []\<rparr>;
            s3 = s2\<lparr>isLoading := True\<rparr>;
            s4 = s3\<lparr>sessionData := (sessionData s3)
                      \<lparr>questionsAsked := questionsAsked (sessionData s3) + 1\<rparr>\<rparr>;
            s5 = (case outcome of
                    Rejected \<Rightarrow> App_handleSend_catch s4
                  | Response ok body \<Rightarrow>
                      if ok then
                        (case body of
                           None \<Rightarrow> App_handleSend_catch s4
                         | Some data \<Rightarrow> handleServerResponse data s4)
                      else App_handleSend_catch s4)
        in s5\<lparr>isLoading := False\<rparr>)"

text \<open>The backend call failed: every path of \<open>try\<close> that ends in \<open>catch\<close>.\<close>

definition backend_failed :: "fetch_outcome \<Rightarrow> bool" where
  "backend_failed outcome =
     (case outcome of Rejected \<Rightarrow> True | Response ok body \<Rightarrow> \<not> ok \<or> body = None)"

section \<open>Topic mastery and the learning graph\<close>

text \<open>
  Modelled from the spec: the Profile's \<open>topicMastery\<close> map and its update in the commit
  step (the backend's profile manager, which README and ARCHITECTURE name but which is
  not among the sources). Each newly seen topic that is not yet in \<open>topicMastery\<close> is added
  with an initial mastery of 0; a topic already present keeps its value. The map is that
  of one learner.
\<close>

definition commit_topicMastery :: "jsString list \<Rightarrow> (jsString \<rightharpoonup> real) \<Rightarrow> (jsString \<rightharpoonup> real)" where
  "commit_topicMastery detected mastery =
     foldl (\<lambda>m t. case m t of None \<Rightarrow> m(t \<mapsto> 0) | Some v \<Rightarrow> m) mastery detected"

text \<open>
  Modelled from the spec: an entry of the LearningGraph timeline (the backend's analytics
  tool, not among the sources), one per calendar day.
\<close>

record graphEntry =
  date :: jsString
  topicsTouched :: "jsString set"
  interactionCount :: nat
  progressSnapshot :: int

text \<open>
  Modelled from the spec: the Learning Graph Aggregator's \<open>record\<close> for one learner (not
  among the sources). It upserts the day's entry: \<open>topicsTouched\<close> is unioned,
  \<open>interactionCount\<close> incremented by the delta and \<open>progressSnapshot\<close> overwritten; a
  date without an entry gets a new one at the end of the timeline.
\<close>

fun record_entry :: "jsString \<Rightarrow> jsString list \<Rightarrow> nat \<Rightarrow> int \<Rightarrow> graphEntry list \<Rightarrow> graphEntry list" where
  "record_entry d ts delta snapshot [] =
     [\<lparr>date = d, topicsTouched = set ts, interactionCount = delta, progressSnapshot = snapshot\<rparr>]"
| "record_entry d ts delta snapshot (e # es) =
     (if date e = d then
        e\<lparr>topicsTouched := topicsTouched e \<union> set ts,
          interactionCount := interactionCount e + delta,
          progressSnapshot := snapshot\<rparr> # es
      else e # record_entry d ts delta snapshot es)"

section \<open>Example states\<close>

text \<open>The initial state with progress 90.\<close>

definition nearly_done :: app_state where
  "nearly_done = initial_state\<lparr>learnerProfile := (learnerProfile initial_state)\<lparr>progress := 90\<rparr>\<rparr>"

text \<open>A state in flight: the first message was sent and its reply is awaited.\<close>

definition in_flight :: app_state where
  "in_flight =
     handleSend_dispatch toLowerCase_ASCII (setInput (js ''What is machine learning?'') initial_state)"

text \<open>
  The first message of the scenario typed with white space around it: a space and a
  no-break space before, a tab, an ideographic space and a line feed after.
\<close>

definition padded_message :: jsString where
  "padded_message = [0x20, 0xA0] @ js ''What is machine learning?'' @ [0x09, 0x3000, 0x0A]"

text \<open>
  An input made of every white space and line terminator code unit of ECMAScript, each
  once.
\<close>

definition all_white_space :: jsString where
  "all_white_space =
     [0x0009, 0x000A, 0x000B, 0x000C, 0x000D, 0x0020, 0x00A0, 0x1680,
      0x2000, 0x2001, 0x2002, 0x2003, 0x2004, 0x2005, 0x2006, 0x2007, 0x2008, 0x2009, 0x200A,
      0x2028, 0x2029, 0x202F, 0x205F, 0x3000, 0xFEFF]"

text \<open>The body of a response that is not ok.\<close>

definition server_error_body :: serverData where
  "server_error_body =
     \<lparr>message = js ''Internal Server Error'', student_level = js ''Expert'',
      progress = 100, topics_detected = Some [js ''Neural Networks'']\<rparr>"

section \<open>Facts about the primitives\<close>

text \<open>\<open>str_includes\<close> is the substring relation.\<close>

lemma str_includes_sublist: "str_includes s kw \<longleftrightarrow> sublist kw s"
proof (induction s)
  case Nil
  then show ?case by auto
next
  case (Cons c cs)
  have "take (length kw) (c # cs) = kw \<longleftrightarrow> prefix kw (c # cs)"
    by (metis append_eq_conv_conj prefix_def take_is_prefix)
  then show ?case using Cons by (simp add: sublist_Cons_right del: take_Suc_Cons)
qed

lemma trim_empty_iff: "trim t = [] \<longleftrightarrow> list_all isWhiteSpace t"
proof (cases "dropWhile isWhiteSpace t")
  case Nil
  then have "trim t = []" by (auto simp: trim_def dest: set_dropWhileD)
  moreover have "list_all isWhiteSpace t"
    using Nil by (simp add: dropWhile_eq_Nil_conv list_all_iff)
  ultimately show ?thesis by simp
next
  case (Cons y ys)
  then have y: "\<not> isWhiteSpace y" "y \<in> set t"
    using hd_dropWhile [of isWhiteSpace t] set_dropWhileD [of y isWhiteSpace t] by auto
  have "y \<in> set (dropWhile isWhiteSpace t)" using Cons by simp
  then have "dropWhile isWhiteSpace (rev (dropWhile isWhiteSpace t)) \<noteq> []"
    using y(1) by (auto simp: dropWhile_eq_Nil_conv)
  then show ?thesis using y by (auto simp: trim_def list_all_iff)
qed

lemma set_trim_subset: "set (trim t) \<subseteq> set t"
proof
  fix x
  assume "x \<in> set (trim t)"
  then have "x \<in> set (dropWhile isWhiteSpace (rev (dropWhile isWhiteSpace t)))"
    by (simp add: trim_def)
  then have "x \<in> set (rev (dropWhile isWhiteSpace t))"
    by (rule set_dropWhileD)
  then show "x \<in> set t"
    by (auto dest: set_dropWhileD)
qed

lemma isASCII_trim: "isASCII t \<Longrightarrow> isASCII (trim t)"
  using set_trim_subset [of t] by (auto simp: isASCII_def list_all_iff)

lemma Set_add_distinct: "distinct acc \<Longrightarrow> distinct (Set_add acc x)"
  by (simp add: Set_add_def)

lemma foldl_Set_add_distinct: "distinct acc \<Longrightarrow> distinct (foldl Set_add acc xs)"
  by (induction xs arbitrary: acc) (simp_all add: Set_add_distinct)

lemma Set_spread_distinct [simp]: "distinct (Set_spread xs)"
  by (simp add: Set_spread_def foldl_Set_add_distinct)

lemma foldl_Set_add_id: "distinct xs \<Longrightarrow> set xs \<inter> set acc = {} \<Longrightarrow> foldl Set_add acc xs = acc @ xs"
  by (induction xs arbitrary: acc) (auto simp: Set_add_def)

lemma Set_spread_id: "distinct xs \<Longrightarrow> Set_spread xs = xs"
  using foldl_Set_add_id [of xs "[]"] by (simp add: Set_spread_def)

lemma Set_spread_snoc:
  "distinct xs \<Longrightarrow> Set_spread (xs @ [x]) = (if x \<in> set xs then xs else xs @ [x])"
  by (simp add: Set_spread_def Set_add_def Set_spread_id [unfolded Set_spread_def])

subsection \<open>Lower-casing\<close>


lemma toLowerCase_ASCII_lowers: "lowers_ASCII toLowerCase_ASCII"
  by (simp add: lowers_ASCII_def toLowerCase_ASCII_def)


lemma lowers_ASCII_eq:
  "lowers_ASCII toLowerCase \<Longrightarrow> isASCII t \<Longrightarrow> toLowerCase t = toLowerCase_ASCII t"
  by (simp add: lowers_ASCII_def toLowerCase_ASCII_def)





section \<open>Properties of a turn (app.jsx)\<close>

subsection \<open>What one call of handleSend does to each part of the state\<close>

lemma handleSend_learnerProfile:
  "learnerProfile (handleSend L s) =
     (if handleSend_returns_early s then learnerProfile s
      else case detectedTopic L (trim (input s)) of
             None \<Rightarrow> learnerProfile s
           | Some t \<Rightarrow>
               if t \<noteq> [] \<and> t \<notin> set (topicsExplored (sessionData s)) then
                 (learnerProfile s)
                   \<lparr>progress := min 100 (progress (learnerProfile s) + 15),
                    topics := Set_spread (topics (learnerProfile s) @ [t])\<rparr>
               else learnerProfile s)"
  by (simp add: handleSend_def handleSend_dispatch_def handleSend_resume_def
      generateResponse_updates_def Let_def split: option.split)

lemma handleSend_topicsExplored:
  "topicsExplored (sessionData (handleSend L s)) =
     (if handleSend_returns_early s then topicsExplored (sessionData s)
      else case detectedTopic L (trim (input s)) of
             None \<Rightarrow> topicsExplored (sessionData s)
           | Some t \<Rightarrow>
               if t \<noteq> [] \<and> t \<notin> set (topicsExplored (sessionData s)) then
                 topicsExplored (sessionData s) @ [t]
               else topicsExplored (sessionData s))"
  by (simp add: handleSend_def handleSend_dispatch_def handleSend_resume_def
      generateResponse_updates_def Let_def split: option.split)

lemma handleSend_messages:
  "messages (handleSend L s) =
     (if handleSend_returns_early s then messages s
      else messages s @ turn_entries L (input s))"
  by (simp add: handleSend_def handleSend_dispatch_def handleSend_resume_def
      generateResponse_updates_def turn_entries_def Let_def split: option.split)

lemma handleSend_isLoading:
  "isLoading (handleSend L s) = (if handleSend_returns_early s then isLoading s else False)"
  by (simp add: handleSend_def handleSend_resume_def Let_def)

lemma handleSend_questionsAsked:
  "questionsAsked (sessionData (handleSend L s)) =
     (if handleSend_returns_early s then questionsAsked (sessionData s)
      else questionsAsked (sessionData s) + 1)"
  by (simp add: handleSend_def handleSend_dispatch_def handleSend_resume_def
      generateResponse_updates_def Let_def split: option.split)

lemma setInput_simps [simp]:
  "input (setInput t s) = t"
  "messages (setInput t s) = messages s"
  "isLoading (setInput t s) = isLoading s"
  "learnerProfile (setInput t s) = learnerProfile s"
  "sessionData (setInput t s) = sessionData s"
  by (simp_all add: setInput_def)

lemma turn_early_iff [simp]:
  "handleSend_returns_early (setInput t s) \<longleftrightarrow> trim t = [] \<or> isLoading s"
  by (simp add: handleSend_returns_early_def)

lemma run_append: "run L s (xs @ ys) = run L (run L s xs) ys"
  by (induction xs arbitrary: s) simp_all

subsection \<open>ASCII texts: every admissible toLowerCase gives the same turn\<close>

lemma detectedTopic_ASCII:
  "lowers_ASCII L \<Longrightarrow> isASCII t \<Longrightarrow> detectedTopic L t = detectedTopic toLowerCase_ASCII t"
  by (simp add: detectedTopic_def lowers_ASCII_eq)

lemma generateResponse_reply_ASCII:
  "lowers_ASCII L \<Longrightarrow> isASCII t \<Longrightarrow>
   generateResponse_reply L t = generateResponse_reply toLowerCase_ASCII t"
  by (simp add: generateResponse_reply_def lowers_ASCII_eq)

lemma handleSend_ASCII:
  assumes "lowers_ASCII L" and "isASCII (input s)"
  shows "handleSend L s = handleSend toLowerCase_ASCII s"
proof -
  have t: "isASCII (trim (input s))" using assms(2) by (rule isASCII_trim)
  show ?thesis
    by (simp add: handleSend_def handleSend_dispatch_def generateResponse_updates_def
        detectedTopic_ASCII [OF assms(1) t] generateResponse_reply_ASCII [OF assms(1) t])
qed

lemma turn_ASCII:
  "lowers_ASCII L \<Longrightarrow> isASCII t \<Longrightarrow> turn L t s = turn toLowerCase_ASCII t s"
  by (simp add: turn_def handleSend_ASCII)

lemma run_ASCII:
  "lowers_ASCII L \<Longrightarrow> list_all isASCII texts \<Longrightarrow> run L s texts = run toLowerCase_ASCII s texts"
  by (induction texts arbitrary: s) (simp_all add: turn_ASCII)

subsection \<open>Progress\<close>

lemma turn_progress_le_100:
  "progress (learnerProfile s) \<le> 100 \<Longrightarrow> progress (learnerProfile (turn L t s)) \<le> 100"
  by (simp add: turn_def handleSend_learnerProfile split: option.split)

lemma turn_progress_ge_0:
  "0 \<le> progress (learnerProfile s) \<Longrightarrow> 0 \<le> progress (learnerProfile (turn L t s))"
  by (simp add: turn_def handleSend_learnerProfile split: option.split)

lemma turn_progress_mono:
  "progress (learnerProfile s) \<le> 100 \<Longrightarrow>
   progress (learnerProfile s) \<le> progress (learnerProfile (turn L t s))"
  by (simp add: turn_def handleSend_learnerProfile split: option.split)

lemma run_progress_le_100:
  "progress (learnerProfile s) \<le> 100 \<Longrightarrow> progress (learnerProfile (run L s texts)) \<le> 100"
  by (induction texts arbitrary: s) (simp_all add: turn_progress_le_100)

lemma run_progress_mono:
  "progress (learnerProfile s) \<le> 100 \<Longrightarrow>
   progress (learnerProfile s) \<le> progress (learnerProfile (run L s texts))"
proof (induction texts arbitrary: s)
  case Nil
  then show ?case by simp
next
  case (Cons x xs)
  have "progress (learnerProfile s) \<le> progress (learnerProfile (turn L x s))"
    using Cons.prems by (rule turn_progress_mono)
  also have "\<dots> \<le> progress (learnerProfile (run L (turn L x s) xs))"
    using Cons.prems by (intro Cons.IH turn_progress_le_100)
  finally show ?case by simp
qed

text \<open>
  C1. In one turn the profile's progress grows by at most the fixed increment 15, whatever
  the message and however many keywords or topics it matches.
\<close>

theorem C1_progress_increment_at_most_15:
  "progress (learnerProfile (turn toLowerCase text s)) \<le> progress (learnerProfile s) + 15"
  by (simp add: turn_def handleSend_learnerProfile split: option.split)

text \<open>
  C2. Across any sequence of turns of a learner whose progress is at most 100 (as it is
  initially and stays), progress never decreases: it is at least as large after each
  further turn as before it, and at least as large as at the start.
\<close>

theorem C2_progress_non_decreasing:
  assumes "progress (learnerProfile s) \<le> 100"
  shows "progress (learnerProfile (run toLowerCase s texts))
           \<le> progress (learnerProfile (run toLowerCase s (texts @ [text])))
         \<and> progress (learnerProfile s) \<le> progress (learnerProfile (run toLowerCase s texts))"
proof -
  have "progress (learnerProfile (run toLowerCase s texts)) \<le> 100"
    using assms by (rule run_progress_le_100)
  then have "progress (learnerProfile (run toLowerCase s texts))
               \<le> progress (learnerProfile (turn toLowerCase text (run toLowerCase s texts)))"
    by (rule turn_progress_mono)
  then show ?thesis
    using run_progress_mono [OF assms, of toLowerCase texts] by (simp add: run_append)
qed

theorem C2_progress_non_decreasing_witness:
  "progress (learnerProfile initial_state) \<le> 100
   \<and> progress (learnerProfile (run toLowerCase_ASCII initial_state
         [js ''What is machine learning?'']))
       \<le> progress (learnerProfile (run toLowerCase_ASCII initial_state
             ([js ''What is machine learning?''] @ [js ''Explain Neural Networks''])))
   \<and> progress (learnerProfile (run toLowerCase_ASCII initial_state
         [js ''What is machine learning?''])) = 15
   \<and> progress (learnerProfile (run toLowerCase_ASCII initial_state
             ([js ''What is machine learning?''] @ [js ''Explain Neural Networks'']))) = 30"
proof -
  have h: "progress (learnerProfile initial_state) \<le> 100"
    by (simp add: initial_state_def)
  have a: "progress (learnerProfile (run toLowerCase_ASCII initial_state
         [js ''What is machine learning?''])) = 15"
    by code_simp
  have b: "progress (learnerProfile (run toLowerCase_ASCII initial_state
             ([js ''What is machine learning?''] @ [js ''Explain Neural Networks'']))) = 30"
    by code_simp
  show ?thesis
    using h a b
      C2_progress_non_decreasing [OF h, of toLowerCase_ASCII "[js ''What is machine learning?'']"
        "js ''Explain Neural Networks''"]
    by simp
qed

subsection \<open>Detection yields the first matching topic\<close>

lemma detectTopic_loop_find:
  "detectTopic_loop ts m
     = map_option topic.name (find (\<lambda>tp. \<exists>kw \<in> set (keywords tp). sublist kw m) ts)"
  by (induction ts) (simp_all add: list_ex_iff str_includes_sublist)

lemma detectTopic_loop_Some_iff:
  "detectTopic_loop ts m = Some n \<longleftrightarrow>
     (\<exists>i < length ts. n = topic.name (ts ! i)
        \<and> (\<exists>kw \<in> set (keywords (ts ! i)). sublist kw m)
        \<and> (\<forall>j < i. \<forall>kw \<in> set (keywords (ts ! j)). \<not> sublist kw m))"
  by (auto simp: detectTopic_loop_find find_Some_iff)

lemma detectTopic_loop_None_iff:
  "detectTopic_loop ts m = None \<longleftrightarrow>
     (\<forall>tp \<in> set ts. \<forall>kw \<in> set (keywords tp). \<not> sublist kw m)"
  by (auto simp: detectTopic_loop_find find_None_iff)

lemma topicsDetected_at_most_one: "length (topicsDetected L t) \<le> 1"
  by (simp add: topicsDetected_def split: option.split)

lemma isASCII_scenario:
  "isASCII (js ''What is machine learning?'')"
  "isASCII (js ''Tell me about neural networks and machine learning'')"
  "isASCII (js ''Tell me about neural networks'')"
  by code_simp+

text \<open>
  The follow-up message of the scenario does not yield two topics: progress is not 30
  after it and Neural Networks is not among the explored topics.
\<close>

theorem C3_counterexample:
  "length (topicsDetected toLowerCase_ASCII
       (js ''Tell me about neural networks and machine learning'')) \<noteq> 2
   \<and> progress (learnerProfile (run toLowerCase_ASCII initial_state
         [js ''What is machine learning?'',
          js ''Tell me about neural networks and machine learning''])) \<noteq> 30
   \<and> js ''Neural Networks'' \<notin> set (topicsExplored (sessionData (run toLowerCase_ASCII initial_state
         [js ''What is machine learning?'',
          js ''Tell me about neural networks and machine learning''])))"
  by code_simp

text \<open>
  C3 (amended). Detection returns at most one topic: the name of the first entry of the
  topic table one of whose keywords occurs in the lower-cased message, and nothing when no
  keyword of any entry occurs. After "What is machine learning?", the follow-up "Tell me
  about neural networks and machine learning" detects Machine Learning Basics only; that
  topic is already explored, so progress stays 15 and \<open>topicsExplored\<close> does not change. A
  follow-up that matches only the second entry, "Tell me about neural networks", gives
  progress 30 and both topics.
\<close>

theorem C3_detection_returns_first_matching_topic:
  assumes "lowers_ASCII toLowerCase"
  shows "(detectedTopic toLowerCase t = Some n \<longleftrightarrow>
            (\<exists>i < length aiTopics. n = topic.name (aiTopics ! i)
               \<and> (\<exists>kw \<in> set (keywords (aiTopics ! i)). sublist kw (toLowerCase t))
               \<and> (\<forall>j < i. \<forall>kw \<in> set (keywords (aiTopics ! j)).
                     \<not> sublist kw (toLowerCase t))))
         \<and> (detectedTopic toLowerCase t = None \<longleftrightarrow>
            (\<forall>tp \<in> set aiTopics. \<forall>kw \<in> set (keywords tp). \<not> sublist kw (toLowerCase t)))
         \<and> length (topicsDetected toLowerCase t) \<le> 1
         \<and> detectedTopic toLowerCase (js ''Tell me about neural networks and machine learning'')
             = Some (js ''Machine Learning Basics'')
         \<and> progress (learnerProfile (run toLowerCase initial_state
               [js ''What is machine learning?'',
                js ''Tell me about neural networks and machine learning''])) = 15
         \<and> topicsExplored (sessionData (run toLowerCase initial_state
               [js ''What is machine learning?'',
                js ''Tell me about neural networks and machine learning'']))
             = [js ''Machine Learning Basics'']
         \<and> progress (learnerProfile (run toLowerCase initial_state
               [js ''What is machine learning?'', js ''Tell me about neural networks''])) = 30
         \<and> topicsExplored (sessionData (run toLowerCase initial_state
               [js ''What is machine learning?'', js ''Tell me about neural networks'']))
             = [js ''Machine Learning Basics'', js ''Neural Networks'']"
proof -
  have d: "detectedTopic toLowerCase (js ''Tell me about neural networks and machine learning'')
       = Some (js ''Machine Learning Basics'')"
    unfolding detectedTopic_ASCII [OF assms isASCII_scenario(2)] by code_simp
  have r1: "run toLowerCase initial_state
         [js ''What is machine learning?'',
          js ''Tell me about neural networks and machine learning'']
       = run toLowerCase_ASCII initial_state
         [js ''What is machine learning?'',
          js ''Tell me about neural networks and machine learning'']"
    using assms by (intro run_ASCII) (simp_all add: isASCII_scenario)
  have r2: "run toLowerCase initial_state
         [js ''What is machine learning?'', js ''Tell me about neural networks'']
       = run toLowerCase_ASCII initial_state
         [js ''What is machine learning?'', js ''Tell me about neural networks'']"
    using assms by (intro run_ASCII) (simp_all add: isASCII_scenario)
  have p1: "progress (learnerProfile (run toLowerCase initial_state
         [js ''What is machine learning?'',
          js ''Tell me about neural networks and machine learning''])) = 15"
    unfolding r1 by code_simp
  have e1: "topicsExplored (sessionData (run toLowerCase initial_state
         [js ''What is machine learning?'',
          js ''Tell me about neural networks and machine learning'']))
       = [js ''Machine Learning Basics'']"
    unfolding r1 by code_simp
  have p2: "progress (learnerProfile (run toLowerCase initial_state
         [js ''What is machine learning?'', js ''Tell me about neural networks''])) = 30"
    unfolding r2 by code_simp
  have e2: "topicsExplored (sessionData (run toLowerCase initial_state
         [js ''What is machine learning?'', js ''Tell me about neural networks'']))
       = [js ''Machine Learning Basics'', js ''Neural Networks'']"
    unfolding r2 by code_simp
  have g1: "detectedTopic toLowerCase t = Some n \<longleftrightarrow>
            (\<exists>i < length aiTopics. n = topic.name (aiTopics ! i)
               \<and> (\<exists>kw \<in> set (keywords (aiTopics ! i)). sublist kw (toLowerCase t))
               \<and> (\<forall>j < i. \<forall>kw \<in> set (keywords (aiTopics ! j)).
                     \<not> sublist kw (toLowerCase t)))"
    unfolding detectedTopic_def by (rule detectTopic_loop_Some_iff)
  have g2: "detectedTopic toLowerCase t = None \<longleftrightarrow>
            (\<forall>tp \<in> set aiTopics. \<forall>kw \<in> set (keywords tp). \<not> sublist kw (toLowerCase t))"
    unfolding detectedTopic_def by (rule detectTopic_loop_None_iff)
  from g1 g2 topicsDetected_at_most_one [of toLowerCase t] d p1 e1 p2 e2
  show ?thesis by (intro conjI)
qed

theorem C3_witness:
  "lowers_ASCII toLowerCase_ASCII
   \<and> detectedTopic toLowerCase_ASCII (js ''Tell me about neural networks and machine learning'')
       = Some (js ''Machine Learning Basics'')
   \<and> sublist (js ''neural'')
        (toLowerCase_ASCII (js ''Tell me about neural networks and machine learning''))
   \<and> sublist (js ''machine learning'')
        (toLowerCase_ASCII (js ''Tell me about neural networks and machine learning''))
   \<and> topicsDetected toLowerCase_ASCII (js ''Tell me about neural networks and machine learning'')
       = [js ''Machine Learning Basics'']"
proof -
  have s: "sublist (js ''neural'')
        (toLowerCase_ASCII (js ''Tell me about neural networks and machine learning''))"
    "sublist (js ''machine learning'')
        (toLowerCase_ASCII (js ''Tell me about neural networks and machine learning''))"
    unfolding str_includes_sublist [symmetric] by code_simp+
  show ?thesis
    using s toLowerCase_ASCII_lowers
      C3_detection_returns_first_matching_topic [OF toLowerCase_ASCII_lowers]
    by (simp add: topicsDetected_def)
qed

subsection \<open>The conversation list\<close>

lemma turn_isLoading: "\<not> isLoading s \<Longrightarrow> \<not> isLoading (turn L t s)"
  by (simp add: turn_def handleSend_isLoading)

lemma turn_messages:
  "\<not> isLoading s \<Longrightarrow>
   messages (turn L t s) = messages s @ (if trim t = [] then [] else turn_entries L t)"
  by (simp add: turn_def handleSend_messages)

lemma run_isLoading: "\<not> isLoading s \<Longrightarrow> \<not> isLoading (run L s texts)"
  by (induction texts arbitrary: s) (simp_all add: turn_isLoading)

lemma run_messages:
  "\<not> isLoading s \<Longrightarrow>
   messages (run L s texts)
     = messages s @ concat (map (turn_entries L) (filter (\<lambda>t. trim t \<noteq> []) texts))"
  by (induction texts arbitrary: s) (simp_all add: turn_isLoading turn_messages)

lemma length_concat_turn_entries: "length (concat (map (turn_entries L) xs)) = 2 * length xs"
  by (induction xs) (simp_all add: turn_entries_def)

lemma length_run_messages:
  "\<not> isLoading s \<Longrightarrow>
   length (messages (run L s texts))
     = length (messages s) + 2 * length (filter (\<lambda>t. trim t \<noteq> []) texts)"
  by (simp add: run_messages length_concat_turn_entries)

lemma trim_hi: "trim (js ''hi'') = js ''hi''"
  by code_simp

text \<open>
  After 25 processed turns the list holds 51 entries, and its first entry is still the
  greeting: nothing was evicted.
\<close>

theorem C4_counterexample:
  "\<not> length (messages (run toLowerCase_ASCII initial_state (replicate 25 (js ''hi'')))) \<le> 50
   \<and> take 1 (messages (run toLowerCase_ASCII initial_state (replicate 25 (js ''hi''))))
       = messages initial_state"
proof -
  have l: "\<not> isLoading initial_state" by (simp add: initial_state_def)
  have t: "trim (js ''hi'') \<noteq> []" unfolding trim_hi by (simp add: js_def)
  have f: "filter (\<lambda>t. trim t \<noteq> []) (replicate 25 (js ''hi'')) = replicate 25 (js ''hi'')"
    using t by (simp add: filter_replicate)
  have "length (messages (run toLowerCase_ASCII initial_state (replicate 25 (js ''hi'')))) = 51"
    using length_run_messages [OF l, of toLowerCase_ASCII "replicate 25 (js ''hi'')"]
    by (simp only: f length_replicate) (simp add: initial_state_def)
  moreover have "take 1 (messages (run toLowerCase_ASCII initial_state (replicate 25 (js ''hi''))))
      = messages initial_state"
    using run_messages [OF l, of toLowerCase_ASCII "replicate 25 (js ''hi'')"]
    by (simp add: initial_state_def)
  ultimately show ?thesis by simp
qed

text \<open>
  C4 (amended). The conversation list has no window and no eviction: a run of turns
  appends, after everything stored before, the learner's message and the reply of every
  turn whose text is not blank, so the list grows by two entries per processed turn.
\<close>

theorem C4_messages_grow_without_eviction:
  assumes "\<not> isLoading s"
  shows "messages (run toLowerCase s texts)
           = messages s
             @ concat (map (turn_entries toLowerCase) (filter (\<lambda>t. trim t \<noteq> []) texts))
         \<and> length (messages (run toLowerCase s texts))
           = length (messages s) + 2 * length (filter (\<lambda>t. trim t \<noteq> []) texts)"
  using assms run_messages [of s toLowerCase texts] length_run_messages [of s toLowerCase texts]
  by simp

theorem C4_witness:
  "\<not> isLoading initial_state
   \<and> messages (run toLowerCase_ASCII initial_state
        [js ''hi'', js ''  '', js ''What is machine learning?''])
       = [\<lparr>role = Assistant, content = greeting, message.topics = None\<rparr>,
          \<lparr>role = User, content = js ''hi'', message.topics = None\<rparr>,
          \<lparr>role = Assistant, content = reply_default, message.topics = None\<rparr>,
          \<lparr>role = User, content = js ''What is machine learning?'', message.topics = None\<rparr>,
          \<lparr>role = Assistant, content = reply_machine_learning, message.topics = None\<rparr>]"
proof -
  have l: "\<not> isLoading initial_state" by (simp add: initial_state_def)
  have t: "trim (js ''  '') = []"
    "trim (js ''What is machine learning?'') = js ''What is machine learning?''"
    by code_simp+
  have n: "js ''hi'' \<noteq> []" "js ''What is machine learning?'' \<noteq> []"
    by (simp_all add: js_def)
  have r: "generateResponse_reply toLowerCase_ASCII (js ''hi'') = reply_default"
    "generateResponse_reply toLowerCase_ASCII (js ''What is machine learning?'')
       = reply_machine_learning"
    by (simp_all add: generateResponse_reply_def toLowerCase_ASCII_def asciiLower_def js_def)
  show ?thesis
    using l C4_messages_grow_without_eviction [OF l, of toLowerCase_ASCII
        "[js ''hi'', js ''  '', js ''What is machine learning?'']"]
    by (simp add: t trim_hi n r turn_entries_def) (simp add: initial_state_def)
qed

subsection \<open>The first turn of a new learner\<close>

lemma record_entry_has_today:
  "\<exists>e \<in> set (record_entry d ts delta snapshot graph). date e = d \<and> set ts \<subseteq> topicsTouched e"
  by (induction graph) auto

lemma first_turn_ASCII:
  "topicsDetected toLowerCase_ASCII (js ''What is machine learning?'')
     = [js ''Machine Learning Basics'']"
  "progress (learnerProfile (turn toLowerCase_ASCII (js ''What is machine learning?'')
     initial_state)) = 15"
  "topics (learnerProfile (turn toLowerCase_ASCII (js ''What is machine learning?'')
     initial_state)) = [js ''Machine Learning Basics'']"
  by code_simp+

text \<open>
  C5. A learner with the initial (empty) profile sends "What is machine learning?": the
  turn detects Machine Learning Basics, progress becomes exactly 15 and the topic is
  recorded in the profile. Committed as the spec describes, the topic gets the
  \<open>topicMastery\<close> entry 0, and the learning graph's entry of that day contains the topic,
  whatever the graph held before.
\<close>

theorem C5_first_turn_machine_learning:
  assumes "lowers_ASCII toLowerCase"
  shows "topicsDetected toLowerCase (js ''What is machine learning?'')
           = [js ''Machine Learning Basics'']
   \<and> progress (learnerProfile (turn toLowerCase (js ''What is machine learning?'')
         initial_state)) = 15
   \<and> topics (learnerProfile (turn toLowerCase (js ''What is machine learning?'')
         initial_state)) = [js ''Machine Learning Basics'']
   \<and> commit_topicMastery (topicsDetected toLowerCase (js ''What is machine learning?''))
         Map.empty (js ''Machine Learning Basics'') = Some 0
   \<and> (\<exists>e \<in> set (record_entry today
           (topicsDetected toLowerCase (js ''What is machine learning?'')) 1
           (progress (learnerProfile (turn toLowerCase (js ''What is machine learning?'')
              initial_state))) graph).
         date e = today \<and> js ''Machine Learning Basics'' \<in> topicsTouched e)"
proof -
  have d: "topicsDetected toLowerCase (js ''What is machine learning?'')
       = [js ''Machine Learning Basics'']"
    using first_turn_ASCII(1)
    by (simp add: topicsDetected_def detectedTopic_ASCII [OF assms isASCII_scenario(1)])
  have u: "turn toLowerCase (js ''What is machine learning?'') initial_state
       = turn toLowerCase_ASCII (js ''What is machine learning?'') initial_state"
    using assms isASCII_scenario(1) by (rule turn_ASCII)
  have m: "commit_topicMastery [js ''Machine Learning Basics''] Map.empty
         (js ''Machine Learning Basics'') = Some 0"
    by (simp add: commit_topicMastery_def)
  have g: "\<exists>e \<in> set (record_entry today [js ''Machine Learning Basics''] 1 15 graph).
         date e = today \<and> js ''Machine Learning Basics'' \<in> topicsTouched e"
    using record_entry_has_today [of today "[js ''Machine Learning Basics'']" 1 15 graph]
    by auto
  show ?thesis using m g by (simp add: d u first_turn_ASCII)
qed

theorem C5_witness:
  "lowers_ASCII toLowerCase_ASCII
   \<and> topicsDetected toLowerCase_ASCII (js ''What is machine learning?'')
       = [js ''Machine Learning Basics'']
   \<and> map date (record_entry (js ''2024-11-01'')
         (topicsDetected toLowerCase_ASCII (js ''What is machine learning?'')) 1
         (progress (learnerProfile (turn toLowerCase_ASCII (js ''What is machine learning?'')
            initial_state))) [])
       = [js ''2024-11-01'']
   \<and> map topicsTouched (record_entry (js ''2024-11-01'')
         (topicsDetected toLowerCase_ASCII (js ''What is machine learning?'')) 1
         (progress (learnerProfile (turn toLowerCase_ASCII (js ''What is machine learning?'')
            initial_state))) [])
       = [{js ''Machine Learning Basics''}]
   \<and> map progressSnapshot (record_entry (js ''2024-11-01'')
         (topicsDetected toLowerCase_ASCII (js ''What is machine learning?'')) 1
         (progress (learnerProfile (turn toLowerCase_ASCII (js ''What is machine learning?'')
            initial_state))) [])
       = [15]"
  using toLowerCase_ASCII_lowers
    C5_first_turn_machine_learning [OF toLowerCase_ASCII_lowers, of "js ''2024-11-01''" "[]"]
  by simp

subsection \<open>Progress stays within 0 and 100\<close>

text \<open>
  C6. From a profile whose progress lies in [0,100], progress lies in [0,100] after the
  turn: it is either unchanged or \<open>min 100 (progress + 15)\<close>, the latter whenever the turn
  records a new topic. Clamping does not fail the turn: a turn that is processed appends
  the learner's message and the reply and ends with \<open>isLoading\<close> reset.
\<close>

theorem C6_progress_stays_in_range:
  assumes "0 \<le> progress (learnerProfile s)" and "progress (learnerProfile s) \<le> 100"
  shows "0 \<le> progress (learnerProfile (turn toLowerCase text s))
         \<and> progress (learnerProfile (turn toLowerCase text s)) \<le> 100
         \<and> (progress (learnerProfile (turn toLowerCase text s)) = progress (learnerProfile s)
            \<or> progress (learnerProfile (turn toLowerCase text s))
                = min 100 (progress (learnerProfile s) + 15))
         \<and> (\<forall>t. \<not> handleSend_returns_early (setInput text s)
                \<and> detectedTopic toLowerCase (trim text) = Some t \<and> t \<noteq> []
                \<and> t \<notin> set (topicsExplored (sessionData s)) \<longrightarrow>
              progress (learnerProfile (turn toLowerCase text s))
                = min 100 (progress (learnerProfile s) + 15))
         \<and> (\<not> handleSend_returns_early (setInput text s) \<longrightarrow>
              messages (turn toLowerCase text s) = messages s @ turn_entries toLowerCase text
              \<and> \<not> isLoading (turn toLowerCase text s))"
proof -
  have "\<forall>t. \<not> handleSend_returns_early (setInput text s)
                \<and> detectedTopic toLowerCase (trim text) = Some t \<and> t \<noteq> []
                \<and> t \<notin> set (topicsExplored (sessionData s)) \<longrightarrow>
              progress (learnerProfile (turn toLowerCase text s))
                = min 100 (progress (learnerProfile s) + 15)"
    by (simp add: turn_def handleSend_learnerProfile)
  moreover have "progress (learnerProfile (turn toLowerCase text s)) = progress (learnerProfile s)
        \<or> progress (learnerProfile (turn toLowerCase text s))
            = min 100 (progress (learnerProfile s) + 15)"
    by (simp add: turn_def handleSend_learnerProfile split: option.split)
  moreover have "\<not> handleSend_returns_early (setInput text s) \<longrightarrow>
      messages (turn toLowerCase text s) = messages s @ turn_entries toLowerCase text
      \<and> \<not> isLoading (turn toLowerCase text s)"
    by (simp add: turn_def handleSend_messages handleSend_isLoading)
  ultimately show ?thesis
    using assms turn_progress_ge_0 [of s toLowerCase "text"]
      turn_progress_le_100 [of s toLowerCase "text"] by simp
qed

theorem C6_witness:
  "0 \<le> progress (learnerProfile nearly_done) \<and> progress (learnerProfile nearly_done) \<le> 100
   \<and> \<not> handleSend_returns_early (setInput (js ''What is machine learning?'') nearly_done)
   \<and> progress (learnerProfile (turn toLowerCase_ASCII (js ''What is machine learning?'')
         nearly_done)) = 100
   \<and> messages (turn toLowerCase_ASCII (js ''What is machine learning?'') nearly_done)
       = messages nearly_done @ turn_entries toLowerCase_ASCII (js ''What is machine learning?'')
   \<and> \<not> isLoading (turn toLowerCase_ASCII (js ''What is machine learning?'') nearly_done)"
proof -
  have a: "0 \<le> progress (learnerProfile nearly_done)"
    and b: "progress (learnerProfile nearly_done) \<le> 100"
    by (simp_all add: nearly_done_def initial_state_def)
  have e: "\<not> handleSend_returns_early (setInput (js ''What is machine learning?'') nearly_done)"
    by code_simp
  have p: "progress (learnerProfile (turn toLowerCase_ASCII (js ''What is machine learning?'')
         nearly_done)) = 100"
    by code_simp
  show ?thesis
    using a b e p
      C6_progress_stays_in_range [OF a b, of toLowerCase_ASCII "js ''What is machine learning?''"]
    by simp
qed

section \<open>Properties of App.tsx\<close>

subsection \<open>A failed backend call\<close>

lemma App_handleSend_failed:
  assumes "\<not> handleSend_returns_early s" and "backend_failed outcome"
  shows "App_handleSend outcome s =
          s\<lparr>messages := messages s
                @ [\<lparr>role = User, content = trim (input s), message.topics = None\<rparr>,
                   \<lparr>role = Assistant, content = fallback_reply, message.topics = None\<rparr>],
            input := [],
            isLoading := False,
            sessionData := (sessionData s)\<lparr>questionsAsked := questionsAsked (sessionData s) + 1\<rparr>\<rparr>"
  using assms
  by (cases outcome)
     (auto simp: App_handleSend_def App_handleSend_catch_def backend_failed_def Let_def)

lemma trim_first_message:
  "trim (js ''What is machine learning?'') = js ''What is machine learning?''"
  by code_simp

lemma first_message_not_early:
  "\<not> handleSend_returns_early (setInput (js ''What is machine learning?'') initial_state)"
  by (simp add: trim_first_message) (simp add: js_def initial_state_def)

text \<open>
  After a rejected fetch the conversation list has gained more than the learner's
  message: its newest entry is the assistant's reply of the failed turn, the static
  fallback text.
\<close>

theorem C7_counterexample:
  "messages (App_handleSend Rejected (setInput (js ''What is machine learning?'') initial_state))
     \<noteq> messages initial_state
         @ [\<lparr>role = User, content = js ''What is machine learning?'', message.topics = None\<rparr>]
   \<and> role (last (messages (App_handleSend Rejected
         (setInput (js ''What is machine learning?'') initial_state)))) = Assistant
   \<and> content (last (messages (App_handleSend Rejected
         (setInput (js ''What is machine learning?'') initial_state))))
       = js ''I'm having trouble connecting right now. Please try again in a moment.''"
proof -
  have f: "backend_failed Rejected" by (simp add: backend_failed_def)
  show ?thesis
    unfolding App_handleSend_failed [OF first_message_not_early f]
    by (simp add: fallback_reply_def)
qed

text \<open>
  C7 (amended). When the backend call of a processed turn fails (the fetch rejects, the
  response is not ok, or its body does not parse), the learner profile and the explored
  topics are unchanged, and the conversation list gains exactly two entries: the
  learner's trimmed message with role user, then the static fallback reply with role
  assistant. Nothing of the failed response is stored; \<open>questionsAsked\<close> is incremented and
  \<open>isLoading\<close> reset.
\<close>

theorem C7_backend_failure_appends_message_and_fallback:
  assumes "\<not> handleSend_returns_early s" and "backend_failed outcome"
  shows "messages (App_handleSend outcome s)
           = messages s
             @ [\<lparr>role = User, content = trim (input s), message.topics = None\<rparr>,
                \<lparr>role = Assistant,
                 content = js ''I'm having trouble connecting right now. Please try again in a moment.'',
                 message.topics = None\<rparr>]
         \<and> learnerProfile (App_handleSend outcome s) = learnerProfile s
         \<and> topicsExplored (sessionData (App_handleSend outcome s))
             = topicsExplored (sessionData s)
         \<and> questionsAsked (sessionData (App_handleSend outcome s))
             = questionsAsked (sessionData s) + 1
         \<and> \<not> isLoading (App_handleSend outcome s)"
  unfolding App_handleSend_failed [OF assms] by (simp add: fallback_reply_def)

lemma trim_padded_message:
  "trim padded_message
     = js ''What is machine learning?''"
  by code_simp

theorem C7_witness:
  "\<not> handleSend_returns_early
       (setInput padded_message initial_state)
   \<and> backend_failed Rejected
   \<and> backend_failed (Response False (Some server_error_body))
   \<and> backend_failed (Response True None)
   \<and> \<not> backend_failed (Response True (Some server_error_body))
   \<and> map role (messages (App_handleSend (Response False (Some server_error_body))
         (setInput padded_message initial_state)))
       = [Assistant, User, Assistant]
   \<and> map content (messages (App_handleSend (Response False (Some server_error_body))
         (setInput padded_message initial_state)))
       = [greeting, js ''What is machine learning?'',
          js ''I'm having trouble connecting right now. Please try again in a moment.'']
   \<and> messages (App_handleSend Rejected
         (setInput padded_message initial_state))
       = messages (App_handleSend (Response True None)
         (setInput padded_message initial_state))
   \<and> learnerProfile (App_handleSend (Response False (Some server_error_body))
         (setInput padded_message initial_state))
       = learnerProfile initial_state"
proof -
  have e: "\<not> handleSend_returns_early
       (setInput padded_message initial_state)"
    by (simp add: trim_padded_message) (simp add: js_def initial_state_def)
  have f: "backend_failed Rejected" "backend_failed (Response False (Some server_error_body))"
    "backend_failed (Response True None)"
    "\<not> backend_failed (Response True (Some server_error_body))"
    by (simp_all add: backend_failed_def)
  show ?thesis
    using e f
      C7_backend_failure_appends_message_and_fallback [OF e f(1)]
      C7_backend_failure_appends_message_and_fallback [OF e f(2)]
      C7_backend_failure_appends_message_and_fallback [OF e f(3)]
    by (simp add: trim_padded_message) (simp add: initial_state_def)
qed

section \<open>Properties of topic detection and of the early return\<close>

subsection \<open>Detection ignores case\<close>




subsection \<open>Blank input and sends in flight\<close>

lemma handleSend_dispatch_isLoading:
  "\<not> handleSend_returns_early s \<Longrightarrow> isLoading (handleSend_dispatch L s)"
  by (simp add: handleSend_dispatch_def generateResponse_updates_def Let_def split: option.split)

text \<open>
  C9. When the input is empty or consists only of white space and line terminators (all
  those that \<open>trim\<close> strips, the no-break space and the other Unicode spaces among them),
  or a turn is in flight (\<open>isLoading\<close>), \<open>handleSend\<close> changes nothing, in app.jsx and in
  App.tsx alike: the whole state (messages, counters, profile) is the state before.
\<close>

theorem C9_blank_or_in_flight_is_noop:
  assumes "list_all isWhiteSpace (input s) \<or> isLoading s"
  shows "handleSend toLowerCase s = s \<and> handleSend_dispatch toLowerCase s = s
         \<and> App_handleSend outcome s = s"
proof -
  have "handleSend_returns_early s"
    using assms by (simp add: handleSend_returns_early_def trim_empty_iff)
  then show ?thesis
    by (simp add: handleSend_def handleSend_dispatch_def App_handleSend_def)
qed

theorem C9_witness:
  "isLoading (setInput (js ''Explain Neural Networks'') in_flight)
   \<and> handleSend toLowerCase_ASCII (setInput (js ''Explain Neural Networks'') in_flight)
       = setInput (js ''Explain Neural Networks'') in_flight
   \<and> list_all isWhiteSpace all_white_space
   \<and> handleSend toLowerCase_ASCII (setInput all_white_space initial_state)
       = setInput all_white_space initial_state
   \<and> App_handleSend Rejected (setInput [0xA0] initial_state) = setInput [0xA0] initial_state
   \<and> App_handleSend Rejected (setInput [] initial_state) = setInput [] initial_state
   \<and> \<not> list_all isWhiteSpace [0x200B] \<and> \<not> list_all isWhiteSpace [0x0085]
   \<and> \<not> list_all isWhiteSpace [0x180E] \<and> \<not> list_all isWhiteSpace [0x1FFF]
   \<and> \<not> list_all isWhiteSpace (js '' a '')"
proof -
  have a: "isLoading (setInput (js ''Explain Neural Networks'') in_flight)"
    using handleSend_dispatch_isLoading [OF first_message_not_early]
    by (simp add: in_flight_def)
  have b: "list_all isWhiteSpace all_white_space"
    by (simp add: isWhiteSpace_def all_white_space_def)
  have c: "list_all isWhiteSpace [0xA0]"
    by (simp add: isWhiteSpace_def)
  have d: "\<not> list_all isWhiteSpace [0x200B]" "\<not> list_all isWhiteSpace [0x0085]"
    "\<not> list_all isWhiteSpace [0x180E]" "\<not> list_all isWhiteSpace [0x1FFF]"
    "\<not> list_all isWhiteSpace (js '' a '')"
    by (simp_all add: isWhiteSpace_def js_def)
  show ?thesis
    using a b c d
      C9_blank_or_in_flight_is_noop
        [of "setInput (js ''Explain Neural Networks'') in_flight" toLowerCase_ASCII Rejected]
      C9_blank_or_in_flight_is_noop
        [of "setInput all_white_space initial_state" toLowerCase_ASCII Rejected]
      C9_blank_or_in_flight_is_noop [of "setInput [0xA0] initial_state" toLowerCase_ASCII Rejected]
      C9_blank_or_in_flight_is_noop [of "setInput [] initial_state" toLowerCase_ASCII Rejected]
    by simp
qed

subsection \<open>The topic lists hold no duplicates\<close>

lemma turn_topicsExplored_step:
  "topicsExplored (sessionData (turn L t s)) = topicsExplored (sessionData s)
   \<or> (\<exists>n. n \<notin> set (topicsExplored (sessionData s))
          \<and> topicsExplored (sessionData (turn L t s)) = topicsExplored (sessionData s) @ [n])"
  by (simp add: turn_def handleSend_topicsExplored split: option.split)

lemma turn_topics_step:
  "distinct (topics (learnerProfile s)) \<Longrightarrow>
   topics (learnerProfile (turn L t s)) = topics (learnerProfile s)
   \<or> (\<exists>n. n \<notin> set (topics (learnerProfile s))
          \<and> topics (learnerProfile (turn L t s)) = topics (learnerProfile s) @ [n])"
  by (auto simp: turn_def handleSend_learnerProfile Set_spread_snoc split: option.split)

lemma turn_distinct_topicsExplored:
  "distinct (topicsExplored (sessionData s)) \<Longrightarrow>
   distinct (topicsExplored (sessionData (turn L t s)))"
  using turn_topicsExplored_step [of L t s] by auto

lemma turn_distinct_topics:
  "distinct (topics (learnerProfile s)) \<Longrightarrow> distinct (topics (learnerProfile (turn L t s)))"
  using turn_topics_step [of s L t] by auto

lemma run_distinct:
  "distinct (topicsExplored (sessionData s)) \<Longrightarrow> distinct (topics (learnerProfile s)) \<Longrightarrow>
   distinct (topicsExplored (sessionData (run L s texts)))
   \<and> distinct (topics (learnerProfile (run L s texts)))"
  by (induction texts arbitrary: s)
     (simp_all add: turn_distinct_topicsExplored turn_distinct_topics)

text \<open>
  C10. Starting from duplicate-free lists (as the initial empty lists are),
  \<open>topicsExplored\<close> and the profile's \<open>topics\<close> are duplicate-free after any sequence
  of turns, and a turn leaves each list unchanged or appends one topic that was not in it.
\<close>

theorem C10_topic_lists_have_no_duplicates:
  assumes "distinct (topicsExplored (sessionData s))" and "distinct (topics (learnerProfile s))"
  shows "distinct (topicsExplored (sessionData (run toLowerCase s texts)))
         \<and> distinct (topics (learnerProfile (run toLowerCase s texts)))
         \<and> (topicsExplored (sessionData (turn toLowerCase text s)) = topicsExplored (sessionData s)
            \<or> (\<exists>t. t \<notin> set (topicsExplored (sessionData s))
                  \<and> topicsExplored (sessionData (turn toLowerCase text s))
                      = topicsExplored (sessionData s) @ [t]))
         \<and> (topics (learnerProfile (turn toLowerCase text s)) = topics (learnerProfile s)
            \<or> (\<exists>t. t \<notin> set (topics (learnerProfile s))
                  \<and> topics (learnerProfile (turn toLowerCase text s))
                      = topics (learnerProfile s) @ [t]))"
  using run_distinct [OF assms, of toLowerCase texts]
    turn_topicsExplored_step [of toLowerCase "text" s]
    turn_topics_step [OF assms(2), of toLowerCase "text"]
  by simp

theorem C10_witness:
  "distinct (topicsExplored (sessionData initial_state))
   \<and> distinct (topics (learnerProfile initial_state))
   \<and> topicsExplored (sessionData (run toLowerCase_ASCII initial_state
        [js ''What is machine learning?'', js ''Explain Neural Networks'',
         js ''more about ML training'']))
       = [js ''Machine Learning Basics'', js ''Neural Networks'']
   \<and> distinct (topicsExplored (sessionData (run toLowerCase_ASCII initial_state
        [js ''What is machine learning?'', js ''Explain Neural Networks'',
         js ''more about ML training''])))
   \<and> distinct (topics (learnerProfile (run toLowerCase_ASCII initial_state
        [js ''What is machine learning?'', js ''Explain Neural Networks'',
         js ''more about ML training''])))"
proof -
  have a: "distinct (topicsExplored (sessionData initial_state))"
    and b: "distinct (topics (learnerProfile initial_state))"
    by (simp_all add: initial_state_def)
  have c: "topicsExplored (sessionData (run toLowerCase_ASCII initial_state
        [js ''What is machine learning?'', js ''Explain Neural Networks'',
         js ''more about ML training'']))
       = [js ''Machine Learning Basics'', js ''Neural Networks'']"
    by code_simp
  show ?thesis
    using a b c
      C10_topic_lists_have_no_duplicates [OF a b, of toLowerCase_ASCII
        "[js ''What is machine learning?'', js ''Explain Neural Networks'',
          js ''more about ML training'']"]
    by simp
qed

end
